theory Spec2Isabelle
  imports Main
begin

section \<open>The graphic memory manager (vcl::graphic::Manager)\<close>

text \<open>
  A shallow embedding of \<^verbatim>\<open>source/graphic/Manager.cxx\<close>. The manager keeps a registry of
  raw \<^verbatim>\<open>ImpGraphic*\<close> pointers and a running counter \<^verbatim>\<open>mnUsedSize\<close>; it never owns a
  graphic, it only reads five things of it. Pointers are addresses (\<open>nat\<close>, \<open>0\<close> is
  \<^verbatim>\<open>nullptr\<close>), and the objects live in a store from addresses to object states, which
  the swap-out callback and the other external code may change freely.

  \<^verbatim>\<open>sal_Int64\<close> values are \<open>int\<close>: signed overflow is undefined in C++, there is no
  wrap-around to write out. Every object referenced through a pointer is taken to be alive;
  other threads are not modelled, the mutex is a flag that says whether the calling thread
  holds it.
\<close>

subsection \<open>Managed objects as the manager sees them\<close>

record ImpGraphic =
  isSwappedOut :: bool   \<comment> \<open>\<^verbatim>\<open>isSwappedOut()\<close>\<close>
  isAvailable :: bool    \<comment> \<open>\<^verbatim>\<open>isAvailable()\<close>\<close>
  getSizeBytes :: int    \<comment> \<open>\<^verbatim>\<open>getSizeBytes()\<close>\<close>
  mpContext :: bool      \<comment> \<open>\<^verbatim>\<open>mpContext\<close> is not null\<close>
  maLastUsed :: int      \<comment> \<open>a time point of the high resolution clock, in ticks\<close>

subsection \<open>The registry: \<^verbatim>\<open>o3tl::sorted_vector<ImpGraphic*>\<close>\<close>

text \<open>
  Modelled from the spec: the container, whose header is not in the sources at hand. The
  registry is a set of object identities; the container keeps it as a vector in strictly
  ascending order, so that it holds every pointer at most once and is iterated in address
  order. \<open>insert\<close> does nothing for an element that is present, \<open>erase\<close> nothing for
  one that is absent.
\<close>

fun ins_sorted :: "nat \<Rightarrow> nat list \<Rightarrow> nat list" where
  "ins_sorted x [] = [x]"
| "ins_sorted x (y # ys) =
     (if x < y then x # y # ys else if x = y then y # ys else y # ins_sorted x ys)"

fun del_sorted :: "nat \<Rightarrow> nat list \<Rightarrow> nat list" where
  "del_sorted x [] = []"
| "del_sorted x (y # ys) =
     (if x < y then y # ys else if x = y then ys else y # del_sorted x ys)"

typedef sorted_vector = "{xs :: nat list. sorted_wrt (<) xs}"
  morphisms elements Abs_sorted_vector
proof
  show "[] \<in> {xs :: nat list. sorted_wrt (<) xs}" by simp
qed

setup_lifting type_definition_sorted_vector

lift_definition sv_empty :: sorted_vector is "[]"
  by simp

lift_definition sv_insert :: "nat \<Rightarrow> sorted_vector \<Rightarrow> sorted_vector" is ins_sorted
proof -
  fix x :: nat and xs :: "nat list"
  have members: "set (ins_sorted x ys) = insert x (set ys)" for ys
    by (induction ys) auto
  show "sorted_wrt (<) xs \<Longrightarrow> sorted_wrt (<) (ins_sorted x xs)"
    by (induction xs) (auto simp: members)
qed

lift_definition sv_erase :: "nat \<Rightarrow> sorted_vector \<Rightarrow> sorted_vector" is del_sorted
proof -
  fix x :: nat and xs :: "nat list"
  have members: "set (del_sorted x ys) \<subseteq> set ys" for ys
    by (induction ys) auto
  show "sorted_wrt (<) xs \<Longrightarrow> sorted_wrt (<) (del_sorted x xs)"
  proof (induction xs)
    case Nil
    then show ?case by simp
  next
    case (Cons y ys)
    then show ?case using members [of ys] by auto
  qed
qed

subsection \<open>The manager and its surroundings\<close>

record Timer =
  timerTimeout :: "int option"   \<comment> \<open>milliseconds, \<open>None\<close> until \<^verbatim>\<open>SetTimeout\<close>\<close>
  timerActive :: bool

record Manager =
  mnAllowedIdleTime :: int       \<comment> \<open>\<^verbatim>\<open>std::chrono::seconds\<close>\<close>
  mbSwapEnabled :: bool
  mbReducingGraphicMemory :: bool
  mnMemoryLimit :: int
  mnUsedSize :: int
  maSwapOutTimer :: Timer
  m_pImpGraphicList :: sorted_vector
  maMutex :: bool                \<comment> \<open>the calling thread holds the mutex\<close>

text \<open>
  What a call into a managed object can read and change: the manager (through its public
  functions), every object, and the clock.
\<close>

record World =
  manager :: Manager
  objects :: "nat \<Rightarrow> ImpGraphic"
  clock :: int                   \<comment> \<open>\<^verbatim>\<open>high_resolution_clock::now()\<close>, in ticks\<close>

text \<open>
  The actions of the manager that leave it, in the order the source performs them: the
  copy of the registry a sweep iterates over, the release of the guard, the call of an
  object's \<^verbatim>\<open>swapOut()\<close> (with the world handed to it), the reacquisition, and the
  \<^verbatim>\<open>SAL_INFO\<close> line (the counter and the calculated size). External code cannot
  rewrite this trace, so it is passed along beside the world.
\<close>

datatype event =
    EvSnapshot "nat list"
  | EvUnlock
  | EvSwapOut nat World
  | EvLock
  | EvSalInfo int int

type_synonym swap_out = "nat \<Rightarrow> World \<Rightarrow> World"

abbreviation registry :: "World \<Rightarrow> nat list" where
  "registry w \<equiv> elements (m_pImpGraphicList (manager w))"

abbreviation usedSize :: "World \<Rightarrow> int" where
  "usedSize w \<equiv> mnUsedSize (manager w)"

definition setMutex :: "bool \<Rightarrow> World \<Rightarrow> World" where
  "setMutex b w = w\<lparr>manager := (manager w)\<lparr>maMutex := b\<rparr>\<rparr>"

definition setUsedSize :: "int \<Rightarrow> World \<Rightarrow> World" where
  "setUsedSize n w = w\<lparr>manager := (manager w)\<lparr>mnUsedSize := n\<rparr>\<rparr>"

definition setReducing :: "bool \<Rightarrow> World \<Rightarrow> World" where
  "setReducing b w = w\<lparr>manager := (manager w)\<lparr>mbReducingGraphicMemory := b\<rparr>\<rparr>"

subsection \<open>Configuration and construction\<close>

text \<open>
  The three configuration reads of \<^verbatim>\<open>setupConfigurationValuesIfPossible\<close>; a read that
  throws is \<open>None\<close>. The function assigns through its reference parameters, one read
  after the other, inside one \<^verbatim>\<open>try\<close> block whose handler is empty.
\<close>

record Configuration =
  IsFuzzing :: bool
  GraphicMemoryLimit :: "int option"
  GraphicAllowedIdleTime :: "int option"
  GraphicSwappingEnabled :: "bool option"

definition setupConfigurationValuesIfPossible ::
    "Configuration \<Rightarrow> int \<times> int \<times> bool \<Rightarrow> int \<times> int \<times> bool" where
  "setupConfigurationValuesIfPossible cfg v =
     (case v of (rMemoryLimit, rAllowedIdleTime, bSwapEnabled) \<Rightarrow>
        if IsFuzzing cfg then (rMemoryLimit, rAllowedIdleTime, bSwapEnabled)
        else (case GraphicMemoryLimit cfg of
            None \<Rightarrow> (rMemoryLimit, rAllowedIdleTime, bSwapEnabled)
          | Some l \<Rightarrow> (case GraphicAllowedIdleTime cfg of
                None \<Rightarrow> (l, rAllowedIdleTime, bSwapEnabled)
              | Some t \<Rightarrow> (case GraphicSwappingEnabled cfg of
                    None \<Rightarrow> (l, t, bSwapEnabled)
                  | Some b \<Rightarrow> (l, t, b)))))"

definition Manager_Manager :: "Configuration \<Rightarrow> Manager" where
  "Manager_Manager cfg =
     (case setupConfigurationValuesIfPossible cfg (300000000, 10, True) of
        (limit, idle, swap) \<Rightarrow>
          \<lparr>mnAllowedIdleTime = idle,
           mbSwapEnabled = swap,
           mbReducingGraphicMemory = False,
           mnMemoryLimit = limit,
           mnUsedSize = 0,
           maSwapOutTimer =
             (if swap then \<lparr>timerTimeout = Some 10000, timerActive = True\<rparr>
              else \<lparr>timerTimeout = None, timerActive = False\<rparr>),
           m_pImpGraphicList = sv_empty,
           maMutex = False\<rparr>)"

subsection \<open>The numbers of the sweep\<close>

text \<open>
  \<^verbatim>\<open>sal_Int64(mnMemoryLimit * 0.7)\<close> converts the limit to a double, multiplies by the
  double nearest to 0.7 and truncates towards zero. The double nearest to 0.7 is
  \<open>6305039478318694 / 2 ^ 53\<close>; a double has 53 significant bits and the default
  rounding is to nearest, ties to even. All values here are far from the exponent's bounds.
\<close>

fun bit_length :: "nat \<Rightarrow> nat" where
  "bit_length n = (if n = 0 then 0 else Suc (bit_length (n div 2)))"

declare bit_length.simps [simp del]

definition round_to_double :: "nat \<Rightarrow> nat" where
  "round_to_double n =
     (let e = bit_length n - 53; q = n div 2 ^ e; r = n mod 2 ^ e
      in if 2 ^ e < 2 * r \<or> (2 * r = 2 ^ e \<and> odd q) then (q + 1) * 2 ^ e else q * 2 ^ e)"

definition swapOutThreshold :: "int \<Rightarrow> int" where
  "swapOutThreshold nLimit =
     (let product = round_to_double (round_to_double (nat \<bar>nLimit\<bar>) * 6305039478318694);
          truncated = int (product div 2 ^ 53)
      in if nLimit < 0 then - truncated else truncated)"

text \<open>
  \<^verbatim>\<open>duration_cast<std::chrono::seconds>\<close> divides the tick count and truncates towards
  zero. The clock's period is the implementation's; it is a nanosecond in the standard
  libraries the project builds with.
\<close>

definition ticks_per_second :: int where
  "ticks_per_second = 1000000000"

definition duration_cast_seconds :: "int \<Rightarrow> int" where
  "duration_cast_seconds d =
     (if 0 \<le> d then d div ticks_per_second else - ((- d) div ticks_per_second))"

subsection \<open>Sizes\<close>

definition getGraphicSizeBytes :: "ImpGraphic \<Rightarrow> int" where
  "getGraphicSizeBytes g = (if \<not> isAvailable g then 0 else getSizeBytes g)"

text \<open>The loop that both \<^verbatim>\<open>reduceGraphicMemory\<close> and \<^verbatim>\<open>registerGraphic\<close> run.\<close>

fun calculateLoop :: "(nat \<Rightarrow> ImpGraphic) \<Rightarrow> nat list \<Rightarrow> int \<Rightarrow> int" where
  "calculateLoop objs [] calculatedSize = calculatedSize"
| "calculateLoop objs (p # ps) calculatedSize =
     calculateLoop objs ps
       (if \<not> isSwappedOut (objs p) then calculatedSize + getGraphicSizeBytes (objs p)
        else calculatedSize)"

definition calculatedSize :: "World \<Rightarrow> int" where
  "calculatedSize w = calculateLoop (objects w) (registry w) 0"

text \<open>
  The specification's words for the same number: the sum of the sizes over the registry
  members that are not swapped out, an unavailable member counting 0.
\<close>

definition sumOfSwappedIn :: "World \<Rightarrow> int" where
  "sumOfSwappedIn w =
     (\<Sum>p \<in> set (registry w).
        if isSwappedOut (objects w p) then 0
        else if isAvailable (objects w p) then getSizeBytes (objects w p) else 0)"

text \<open>What one member adds to that sum.\<close>

definition contribution :: "(nat \<Rightarrow> ImpGraphic) \<Rightarrow> nat \<Rightarrow> int" where
  "contribution objs p = (if isSwappedOut (objs p) then 0 else getGraphicSizeBytes (objs p))"

subsection \<open>The eviction sweep\<close>

text \<open>
  \<^verbatim>\<open>loopGraphicsAndSwapOut\<close>: the loop over the copy of the registry. \<^verbatim>\<open>return\<close> ends
  the recursion, \<^verbatim>\<open>continue\<close> goes on with the rest of the copy. The object's
  \<^verbatim>\<open>swapOut()\<close> is external code: a parameter, called with the address and the world as
  it is once the guard has been released.
\<close>

fun swapOutLoop :: "swap_out \<Rightarrow> nat list \<Rightarrow> World \<times> event list \<Rightarrow> World \<times> event list" where
  "swapOutLoop swapOut [] (w, tr) = (w, tr)"
| "swapOutLoop swapOut (pEachImpGraphic # rest) (w, tr) =
     (if usedSize w < swapOutThreshold (mnMemoryLimit (manager w)) then (w, tr)
      else if isSwappedOut (objects w pEachImpGraphic) then swapOutLoop swapOut rest (w, tr)
      else
        (let nCurrentGraphicSize = getGraphicSizeBytes (objects w pEachImpGraphic)
         in if 100000 < nCurrentGraphicSize then
              (if \<not> mpContext (objects w pEachImpGraphic) then
                 (let aDeltaTime = clock w - maLastUsed (objects w pEachImpGraphic);
                      aSeconds = duration_cast_seconds aDeltaTime
                  in if mnAllowedIdleTime (manager w) < aSeconds then
                       swapOutLoop swapOut rest
                         (setMutex True (swapOut pEachImpGraphic (setMutex False w)),
                          tr @ [EvUnlock, EvSwapOut pEachImpGraphic (setMutex False w), EvLock])
                     else swapOutLoop swapOut rest (w, tr))
               else swapOutLoop swapOut rest (w, tr))
            else swapOutLoop swapOut rest (w, tr)))"

definition loopGraphicsAndSwapOut :: "swap_out \<Rightarrow> World \<times> event list \<Rightarrow> World \<times> event list" where
  "loopGraphicsAndSwapOut swapOut s =
     (case s of (w, tr) \<Rightarrow>
        (let aImpGraphicList = registry w
         in swapOutLoop swapOut aImpGraphicList (w, tr @ [EvSnapshot aImpGraphicList])))"

definition reduceGraphicMemory :: "swap_out \<Rightarrow> World \<times> event list \<Rightarrow> World \<times> event list" where
  "reduceGraphicMemory swapOut s =
     (case s of (w, tr) \<Rightarrow>
        if \<not> mbSwapEnabled (manager w) then (w, tr)
        else if usedSize w < mnMemoryLimit (manager w) then (w, tr)
        else if mbReducingGraphicMemory (manager w) then (w, tr)
        else
          (case loopGraphicsAndSwapOut swapOut (setReducing True w, tr) of (w', tr') \<Rightarrow>
             (let w'' = (if calculatedSize w' \<noteq> usedSize w'
                         then setUsedSize (calculatedSize w') w' else w')
              in (setReducing False w'', tr'))))"

text \<open>
  \<^verbatim>\<open>SwapOutTimerHandler\<close>: the guard is taken for the whole handler and released when
  it goes out of scope.
\<close>

definition setTimerActive :: "bool \<Rightarrow> World \<Rightarrow> World" where
  "setTimerActive b w =
     w\<lparr>manager := (manager w)\<lparr>maSwapOutTimer := (maSwapOutTimer (manager w))\<lparr>timerActive := b\<rparr>\<rparr>\<rparr>"

definition SwapOutTimerHandler :: "swap_out \<Rightarrow> World \<times> event list \<Rightarrow> World \<times> event list" where
  "SwapOutTimerHandler swapOut s =
     (case s of (w, tr) \<Rightarrow>
        (case reduceGraphicMemory swapOut (setTimerActive False (setMutex True w), tr) of
           (w', tr') \<Rightarrow> (setMutex False (setTimerActive True w'), tr')))"

subsection \<open>Registration and the notifications\<close>

text \<open>\<^verbatim>\<open>registerGraphic\<close>, in its three parts: making space, inserting, recalculating.\<close>

definition registerGraphic_makeSpace ::
    "swap_out \<Rightarrow> World \<times> event list \<Rightarrow> World \<times> event list" where
  "registerGraphic_makeSpace swapOut s =
     (case s of (w, tr) \<Rightarrow>
        (let w0 = setMutex True w
         in if mnMemoryLimit (manager w0) < usedSize w0
            then reduceGraphicMemory swapOut (w0, tr) else (w0, tr)))"

definition registerGraphic_insert :: "nat \<Rightarrow> World \<Rightarrow> World" where
  "registerGraphic_insert pImpGraphic w =
     w\<lparr>manager := (manager w)
         \<lparr>mnUsedSize := usedSize w + getGraphicSizeBytes (objects w pImpGraphic),
          m_pImpGraphicList := sv_insert pImpGraphic (m_pImpGraphicList (manager w))\<rparr>\<rparr>"

definition registerGraphic_recalculate :: "World \<times> event list \<Rightarrow> World \<times> event list" where
  "registerGraphic_recalculate s =
     (case s of (w, tr) \<Rightarrow>
        if calculatedSize w \<noteq> usedSize w
        then (setMutex False (setUsedSize (calculatedSize w) w),
              tr @ [EvSalInfo (usedSize w) (calculatedSize w)])
        else (setMutex False w, tr))"

definition registerGraphic :: "swap_out \<Rightarrow> nat \<Rightarrow> World \<times> event list \<Rightarrow> World \<times> event list" where
  "registerGraphic swapOut pImpGraphic s =
     (case registerGraphic_makeSpace swapOut s of
        (w, tr) \<Rightarrow> registerGraphic_recalculate (registerGraphic_insert pImpGraphic w, tr))"

definition unregisterGraphic :: "nat \<Rightarrow> World \<Rightarrow> World" where
  "unregisterGraphic pImpGraphic w =
     (let w0 = setMutex True w
      in setMutex False
           (w0\<lparr>manager := (manager w0)
               \<lparr>mnUsedSize := usedSize w0 - getGraphicSizeBytes (objects w0 pImpGraphic),
                m_pImpGraphicList := sv_erase pImpGraphic (m_pImpGraphicList (manager w0))\<rparr>\<rparr>))"

definition swappedIn :: "nat \<Rightarrow> int \<Rightarrow> World \<Rightarrow> World" where
  "swappedIn pImpGraphic nSizeBytes w =
     (let w0 = setMutex True w
      in setMutex False
           (if pImpGraphic \<noteq> 0 then setUsedSize (usedSize w0 + nSizeBytes) w0 else w0))"

definition swappedOut :: "nat \<Rightarrow> int \<Rightarrow> World \<Rightarrow> World" where
  "swappedOut pImpGraphic nSizeBytes w =
     (let w0 = setMutex True w
      in setMutex False
           (if pImpGraphic \<noteq> 0 then setUsedSize (usedSize w0 - nSizeBytes) w0 else w0))"

definition changeExisting :: "nat \<Rightarrow> int \<Rightarrow> World \<Rightarrow> World" where
  "changeExisting pImpGraphic nOldSizeBytes w =
     (let w0 = setMutex True w;
          w1 = setUsedSize (usedSize w0 - nOldSizeBytes) w0
      in setMutex False
           (setUsedSize (usedSize w1 + getGraphicSizeBytes (objects w1 pImpGraphic)) w1))"

subsection \<open>Sequences of operations\<close>

text \<open>
  A managed object changes by itself and then tells the manager. A notification therefore
  carries the state the object has taken just before it calls; giving the state it already
  has is a notification without a change.
\<close>

datatype operation =
    Register nat
  | Unregister nat
  | SwappedIn nat ImpGraphic int
  | SwappedOut nat ImpGraphic int
  | ChangeExisting nat ImpGraphic int

definition setObject :: "nat \<Rightarrow> ImpGraphic \<Rightarrow> World \<Rightarrow> World" where
  "setObject p g w = w\<lparr>objects := (objects w)(p := g)\<rparr>"

fun perform :: "swap_out \<Rightarrow> operation \<Rightarrow> World \<times> event list \<Rightarrow> World \<times> event list" where
  "perform swapOut (Register p) s = registerGraphic swapOut p s"
| "perform swapOut (Unregister p) s = (unregisterGraphic p (fst s), snd s)"
| "perform swapOut (SwappedIn p g n) s = (swappedIn p n (setObject p g (fst s)), snd s)"
| "perform swapOut (SwappedOut p g n) s = (swappedOut p n (setObject p g (fst s)), snd s)"
| "perform swapOut (ChangeExisting p g n) s = (changeExisting p n (setObject p g (fst s)), snd s)"

fun performAll :: "swap_out \<Rightarrow> operation list \<Rightarrow> World \<times> event list \<Rightarrow> World \<times> event list" where
  "performAll swapOut [] s = s"
| "performAll swapOut (x # xs) s = performAll swapOut xs (perform swapOut x s)"



subsection \<open>Reading a trace\<close>

fun swapOutCalls :: "event list \<Rightarrow> (nat \<times> World) list" where
  "swapOutCalls [] = []"
| "swapOutCalls (EvSwapOut p w # es) = (p, w) # swapOutCalls es"
| "swapOutCalls (e # es) = swapOutCalls es"

fun snapshots :: "event list \<Rightarrow> nat list list" where
  "snapshots [] = []"
| "snapshots (EvSnapshot ps # es) = ps # snapshots es"
| "snapshots (e # es) = snapshots es"

definition releasedCall :: "nat \<times> World \<Rightarrow> event list" where
  "releasedCall c = [EvUnlock, EvSwapOut (fst c) (snd c), EvLock]"

definition calledObject :: "nat \<times> World \<Rightarrow> ImpGraphic" where
  "calledObject c = objects (snd c) (fst c)"

definition idleTicks :: "nat \<times> World \<Rightarrow> int" where
  "idleTicks c = clock (snd c) - maLastUsed (calledObject c)"

text \<open>Everything the loop has checked when it calls an object's \<^verbatim>\<open>swapOut()\<close>.\<close>

definition callChecked :: "nat \<times> World \<Rightarrow> bool" where
  "callChecked c =
     (\<not> maMutex (manager (snd c)) \<and>
      \<not> usedSize (snd c) < swapOutThreshold (mnMemoryLimit (manager (snd c))) \<and>
      \<not> isSwappedOut (calledObject c) \<and>
      100000 < getGraphicSizeBytes (calledObject c) \<and>
      \<not> mpContext (calledObject c) \<and>
      mnAllowedIdleTime (manager (snd c)) < duration_cast_seconds (idleTicks c))"

text \<open>A call in short: the address, the counter and the mutex flag at the call.\<close>

definition callSummary :: "nat \<times> World \<Rightarrow> nat \<times> int \<times> bool" where
  "callSummary c = (fst c, usedSize (snd c), maMutex (manager (snd c)))"

subsection \<open>Sample surroundings\<close>

text \<open>
  Modelled from the spec: an object's \<^verbatim>\<open>swapOut()\<close>, which is not in the sources at hand.
  It does nothing for an object that is swapped out already; otherwise the object drops its
  payload and reports the size it had through \<^verbatim>\<open>swappedOut\<close>.
\<close>

definition ImpGraphic_swapOut :: swap_out where
  "ImpGraphic_swapOut p w =
     (if isSwappedOut (objects w p) then w
      else swappedOut p (getSizeBytes (objects w p))
             (setObject p ((objects w p)\<lparr>isSwappedOut := True\<rparr>) w))"

definition graphic :: "int \<Rightarrow> ImpGraphic" where
  "graphic n = \<lparr>isSwappedOut = False, isAvailable = True, getSizeBytes = n,
                mpContext = False, maLastUsed = 0\<rparr>"

definition twoGraphics :: "nat \<Rightarrow> ImpGraphic" where
  "twoGraphics p = (if p = 16 then graphic 800001 else graphic 700000)"

definition sampleConfiguration :: "bool \<Rightarrow> Configuration" where
  "sampleConfiguration swap =
     \<lparr>IsFuzzing = False, GraphicMemoryLimit = Some 1000001,
      GraphicAllowedIdleTime = Some 10, GraphicSwappingEnabled = Some swap\<rparr>"

text \<open>
  Two graphics of 800,001 and 700,000 bytes at the addresses 16 and 32, last used at tick 0,
  registered with a manager whose limit is 1,000,001 bytes and whose idle time is 10
  seconds; whether swapping is enabled and what the clock shows are parameters.
\<close>

definition sampleWorld :: "bool \<Rightarrow> int \<Rightarrow> World" where
  "sampleWorld swap now =
     fst (performAll ImpGraphic_swapOut [Register 16, Register 32]
            (\<lparr>manager = Manager_Manager (sampleConfiguration swap),
              objects = twoGraphics, clock = now\<rparr>, []))"

text \<open>A configuration none of whose values can be read, and a manager built from it.\<close>

definition noConfiguration :: Configuration where
  "noConfiguration = \<lparr>IsFuzzing = False, GraphicMemoryLimit = None,
      GraphicAllowedIdleTime = None, GraphicSwappingEnabled = None\<rparr>"

definition freshWorld :: World where
  "freshWorld = \<lparr>manager = Manager_Manager noConfiguration,
      objects = twoGraphics, clock = 0\<rparr>"

text \<open>Graphics of 500 bytes that are swapped out and say that they are available.\<close>

definition swappedOutGraphics :: "nat \<Rightarrow> ImpGraphic" where
  "swappedOutGraphics p = (graphic 500)\<lparr>isSwappedOut := True\<rparr>"

definition driftWorld :: World where
  "driftWorld = \<lparr>manager = Manager_Manager noConfiguration,
      objects = swappedOutGraphics, clock = 0\<rparr>"


text \<open>The sample world after the graphic at 32 has shrunk to 600,000 bytes and said so.\<close>

definition lighterWorld :: World where
  "lighterWorld = fst (perform ImpGraphic_swapOut (ChangeExisting 32 (graphic 600000) 700000)
                         (sampleWorld True 60000000000, []))"

text \<open>The sample world with an operation in progress on the graphic at 16.\<close>

definition busyWorld :: World where
  "busyWorld = setObject 16 ((graphic 800001)\<lparr>mpContext := True\<rparr>) (sampleWorld True 60000000000)"

text \<open>The sample world as a sweep finds it: the caller holds the mutex.\<close>

definition lockedWorld :: World where
  "lockedWorld = setMutex True (sampleWorld True 60000000000)"

text \<open>
  Modelled from the spec: a \<^verbatim>\<open>swapOut()\<close> that calls back into the manager. The call
  back takes the mutex, so it gets in only when the caller has released it; where the
  caller still holds it, the sample leaves everything as it is.
\<close>

definition reenteringSwapOut :: swap_out where
  "reenteringSwapOut p w = (if maMutex (manager w) then w else ImpGraphic_swapOut p w)"

text \<open>The sample world inside a reduction, and a world far below its limit.\<close>

definition reducingWorld :: World where
  "reducingWorld = setReducing True (sampleWorld True 60000000000)"

definition smallWorld :: World where
  "smallWorld = fst (registerGraphic ImpGraphic_swapOut 16 (freshWorld, []))"

text \<open>A swapped-out graphic that says it is available, registered.\<close>

definition registeredWorld :: World where
  "registeredWorld = fst (registerGraphic ImpGraphic_swapOut 16 (driftWorld, []))"

text \<open>A configuration whose second value cannot be read.\<close>

definition partialConfiguration :: Configuration where
  "partialConfiguration = \<lparr>IsFuzzing = False, GraphicMemoryLimit = Some 5000,
      GraphicAllowedIdleTime = None, GraphicSwappingEnabled = Some False\<rparr>"

section \<open>Properties\<close>

subsection \<open>The registry\<close>

lemma set_ins_sorted: "set (ins_sorted x xs) = insert x (set xs)"
  by (induction xs) auto

lemma set_del_sorted: "sorted_wrt (<) xs \<Longrightarrow> set (del_sorted x xs) = set xs - {x}"
  by (induction xs) auto

lemma elements_ascending: "sorted_wrt (<) (elements v)"
  using elements [of v] by simp

lemma elements_distinct: "distinct (elements v)"
  using elements_ascending [of v] by (simp add: strict_sorted_iff)

lemma elements_sv_empty [simp]: "elements sv_empty = []"
  by (rule sv_empty.rep_eq)

lemma elements_sv_insert [simp]: "elements (sv_insert x v) = ins_sorted x (elements v)"
  by (rule sv_insert.rep_eq)

lemma elements_sv_erase [simp]: "elements (sv_erase x v) = del_sorted x (elements v)"
  by (rule sv_erase.rep_eq)

lemmas eval_simps =
  setMutex_def setUsedSize_def setReducing_def setObject_def
  registerGraphic_def registerGraphic_makeSpace_def registerGraphic_insert_def
  registerGraphic_recalculate_def reduceGraphicMemory_def loopGraphicsAndSwapOut_def
  calculatedSize_def getGraphicSizeBytes_def unregisterGraphic_def swappedIn_def swappedOut_def
  changeExisting_def Manager_Manager_def setupConfigurationValuesIfPossible_def
  sampleConfiguration_def noConfiguration_def twoGraphics_def swappedOutGraphics_def graphic_def
  ImpGraphic_swapOut_def duration_cast_seconds_def ticks_per_second_def sumOfSwappedIn_def
  driftWorld_def freshWorld_def Let_def

subsection \<open>Accounting lemmas\<close>

lemma calculateLoop_sum_list:
  "calculateLoop objs ps acc = acc + sum_list (map (contribution objs) ps)"
  by (induction ps arbitrary: acc) (simp_all add: contribution_def)

lemma sumOfSwappedIn_contribution:
  "sumOfSwappedIn w = sum (contribution (objects w)) (set (registry w))"
  unfolding sumOfSwappedIn_def
  by (rule sum.cong) (simp_all add: contribution_def getGraphicSizeBytes_def)

lemma calculatedSize_is_sum: "calculatedSize w = sumOfSwappedIn w"
proof -
  have "calculatedSize w = sum_list (map (contribution (objects w)) (registry w))"
    by (simp add: calculatedSize_def calculateLoop_sum_list)
  also have "\<dots> = sum (contribution (objects w)) (set (registry w))"
    by (rule sum_list_distinct_conv_sum_set) (rule elements_distinct)
  finally show ?thesis by (simp add: sumOfSwappedIn_contribution)
qed

lemma registry_setMutex [simp]: "registry (setMutex b w) = registry w"
  by (simp add: setMutex_def)

lemma objects_setMutex [simp]: "objects (setMutex b w) = objects w"
  by (simp add: setMutex_def)

lemma usedSize_setMutex [simp]: "usedSize (setMutex b w) = usedSize w"
  by (simp add: setMutex_def)

lemma registry_setUsedSize [simp]: "registry (setUsedSize n w) = registry w"
  by (simp add: setUsedSize_def)

lemma objects_setUsedSize [simp]: "objects (setUsedSize n w) = objects w"
  by (simp add: setUsedSize_def)

lemma usedSize_setUsedSize [simp]: "usedSize (setUsedSize n w) = n"
  by (simp add: setUsedSize_def)

lemma sumOfSwappedIn_setMutex [simp]: "sumOfSwappedIn (setMutex b w) = sumOfSwappedIn w"
  by (simp add: sumOfSwappedIn_contribution)

lemma sumOfSwappedIn_setUsedSize [simp]: "sumOfSwappedIn (setUsedSize n w) = sumOfSwappedIn w"
  by (simp add: sumOfSwappedIn_contribution)

lemma calculatedSize_setMutex [simp]: "calculatedSize (setMutex b w) = calculatedSize w"
  by (simp add: calculatedSize_def)

lemma calculatedSize_setUsedSize [simp]: "calculatedSize (setUsedSize n w) = calculatedSize w"
  by (simp add: calculatedSize_def)

lemma setUsedSize_same: "setUsedSize (usedSize w) w = w"
  by (simp add: setUsedSize_def)

lemma recalculate_result:
  "registerGraphic_recalculate (w, tr) =
     (setMutex False (setUsedSize (calculatedSize w) w),
      tr @ (if calculatedSize w \<noteq> usedSize w
            then [EvSalInfo (usedSize w) (calculatedSize w)] else []))"
  by (auto simp: registerGraphic_recalculate_def setUsedSize_same)

lemma registerGraphic_result:
  "registerGraphic_makeSpace swapOut s = (w1, tr1) \<Longrightarrow>
   registerGraphic swapOut p s =
     (setMutex False
        (setUsedSize (calculatedSize (registerGraphic_insert p w1)) (registerGraphic_insert p w1)),
      tr1 @ (if calculatedSize (registerGraphic_insert p w1) \<noteq> usedSize (registerGraphic_insert p w1)
             then [EvSalInfo (usedSize (registerGraphic_insert p w1))
                     (calculatedSize (registerGraphic_insert p w1))]
             else []))"
  by (simp add: registerGraphic_def recalculate_result)


lemma unregisterGraphic_fields:
  "usedSize (unregisterGraphic p w) = usedSize w - getGraphicSizeBytes (objects w p)"
  "registry (unregisterGraphic p w) = del_sorted p (registry w)"
  "objects (unregisterGraphic p w) = objects w"
  by (simp_all add: unregisterGraphic_def setMutex_def Let_def)

lemma sum_erase:
  "sum (contribution objs) (set (del_sorted p (elements v)))
     = sum (contribution objs) (set (elements v))
       - (if p \<in> set (elements v) then contribution objs p else 0)"
proof -
  have "set (del_sorted p (elements v)) = set (elements v) - {p}"
    by (simp add: set_del_sorted elements_ascending)
  then show ?thesis
    by (simp add: sum_diff1)
qed

lemma sumOfSwappedIn_unregister:
  "sumOfSwappedIn (unregisterGraphic p w)
     = sumOfSwappedIn w - (if p \<in> set (registry w) then contribution (objects w) p else 0)"
  by (simp only: sumOfSwappedIn_contribution unregisterGraphic_fields sum_erase)




lemma setObject_fields [simp]:
  "usedSize (setObject p g w) = usedSize w"
  "registry (setObject p g w) = registry w"
  "objects (setObject p g w) p = g"
  by (simp_all add: setObject_def)


subsection \<open>The shape of a sweep\<close>

text \<open>Everything the loop has checked when it calls an objects \<^verbatim>\<open>swapOut()\<close>.\<close>

lemma swapOutLoop_below:
  "usedSize w < swapOutThreshold (mnMemoryLimit (manager w)) \<Longrightarrow>
   swapOutLoop swapOut ps (w, tr) = (w, tr)"
  by (cases ps) simp_all

lemma swapOutLoop_append:
  "swapOutLoop swapOut (ps @ qs) (w, tr) = swapOutLoop swapOut qs (swapOutLoop swapOut ps (w, tr))"
proof (induction ps arbitrary: w tr)
  case Nil
  then show ?case by simp
next
  case (Cons p ps)
  show ?case
  proof (cases "usedSize w < swapOutThreshold (mnMemoryLimit (manager w))")
    case True
    then show ?thesis by (simp add: swapOutLoop_below)
  next
    case False
    then show ?thesis by (simp add: Cons.IH Let_def)
  qed
qed

lemma swapOutCalls_append: "swapOutCalls (xs @ ys) = swapOutCalls xs @ swapOutCalls ys"
  by (induction xs rule: swapOutCalls.induct) simp_all

lemma snapshots_append: "snapshots (xs @ ys) = snapshots xs @ snapshots ys"
  by (induction xs rule: snapshots.induct) simp_all

lemma swapOutCalls_released: "swapOutCalls (concat (map releasedCall cs)) = cs"
  by (induction cs) (simp_all add: releasedCall_def)

lemma snapshots_released: "snapshots (concat (map releasedCall cs)) = []"
  by (induction cs) (simp_all add: releasedCall_def)

lemma swapOutLoop_trace:
  "\<exists>cs. snd (swapOutLoop swapOut ps (w, tr)) = tr @ concat (map releasedCall cs)
        \<and> list_all callChecked cs"
proof (induction ps arbitrary: w tr)
  case Nil
  have "snd (swapOutLoop swapOut [] (w, tr)) = tr @ concat (map releasedCall [])
          \<and> list_all callChecked []" by simp
  then show ?case by blast
next
  case (Cons p ps)
  let ?w' = "setMutex True (swapOut p (setMutex False w))"
  let ?c = "(p, setMutex False w)"
  let ?called = "\<not> usedSize w < swapOutThreshold (mnMemoryLimit (manager w)) \<and>
      \<not> isSwappedOut (objects w p) \<and> 100000 < getGraphicSizeBytes (objects w p) \<and>
      \<not> mpContext (objects w p) \<and>
      mnAllowedIdleTime (manager w) < duration_cast_seconds (clock w - maLastUsed (objects w p))"
  show ?case
  proof (cases ?called)
    case True
    then have step: "swapOutLoop swapOut (p # ps) (w, tr)
        = swapOutLoop swapOut ps (?w', tr @ releasedCall ?c)"
      by (simp add: Let_def releasedCall_def)
    from True have chk: "callChecked ?c"
      by (simp add: callChecked_def calledObject_def idleTicks_def setMutex_def)
    obtain cs where cs: "snd (swapOutLoop swapOut ps (?w', tr @ releasedCall ?c))
          = (tr @ releasedCall ?c) @ concat (map releasedCall cs)" "list_all callChecked cs"
      using Cons.IH by blast
    have "snd (swapOutLoop swapOut (p # ps) (w, tr)) = tr @ concat (map releasedCall (?c # cs))
          \<and> list_all callChecked (?c # cs)"
      using step cs chk by simp
    then show ?thesis by blast
  next
    case False
    then have "swapOutLoop swapOut (p # ps) (w, tr) = (w, tr)
        \<or> swapOutLoop swapOut (p # ps) (w, tr) = swapOutLoop swapOut ps (w, tr)"
      by (auto simp: Let_def)
    then show ?thesis
    proof
      assume "swapOutLoop swapOut (p # ps) (w, tr) = (w, tr)"
      then have "snd (swapOutLoop swapOut (p # ps) (w, tr)) = tr @ concat (map releasedCall [])
          \<and> list_all callChecked []" by simp
      then show ?thesis by blast
    next
      assume "swapOutLoop swapOut (p # ps) (w, tr) = swapOutLoop swapOut ps (w, tr)"
      then show ?thesis using Cons.IH [of w tr] by simp
    qed
  qed
qed

lemma maMutex_setMutex [simp]: "maMutex (manager (setMutex b w)) = b"
  by (simp add: setMutex_def)

lemma swapOutLoop_holds_mutex:
  "maMutex (manager w) \<Longrightarrow> maMutex (manager (fst (swapOutLoop swapOut ps (w, tr))))"
  by (induction ps arbitrary: w tr) (simp_all add: Let_def)

lemma loop_trace:
  "\<exists>cs. snd (loopGraphicsAndSwapOut swapOut (w, tr))
          = tr @ EvSnapshot (registry w) # concat (map releasedCall cs)
        \<and> list_all callChecked cs"
proof -
  obtain cs where "snd (swapOutLoop swapOut (registry w) (w, tr @ [EvSnapshot (registry w)]))
       = (tr @ [EvSnapshot (registry w)]) @ concat (map releasedCall cs)" "list_all callChecked cs"
    using swapOutLoop_trace by blast
  then have "snd (loopGraphicsAndSwapOut swapOut (w, tr))
          = tr @ EvSnapshot (registry w) # concat (map releasedCall cs)
        \<and> list_all callChecked cs"
    by (simp add: loopGraphicsAndSwapOut_def Let_def)
  then show ?thesis by blast
qed

lemma loop_calls_checked:
  "list_all callChecked (swapOutCalls (snd (loopGraphicsAndSwapOut swapOut (w, []))))"
  and loop_trace_shape:
  "snd (loopGraphicsAndSwapOut swapOut (w, []))
     = EvSnapshot (registry w)
       # concat (map releasedCall (swapOutCalls (snd (loopGraphicsAndSwapOut swapOut (w, [])))))"
proof -
  obtain cs where cs: "snd (loopGraphicsAndSwapOut swapOut (w, []))
          = [] @ EvSnapshot (registry w) # concat (map releasedCall cs)" "list_all callChecked cs"
    using loop_trace by blast
  then have eq: "swapOutCalls (snd (loopGraphicsAndSwapOut swapOut (w, []))) = cs"
    by (simp add: swapOutCalls_released)
  show "list_all callChecked (swapOutCalls (snd (loopGraphicsAndSwapOut swapOut (w, []))))"
    using cs eq by simp
  show "snd (loopGraphicsAndSwapOut swapOut (w, []))
     = EvSnapshot (registry w)
       # concat (map releasedCall (swapOutCalls (snd (loopGraphicsAndSwapOut swapOut (w, [])))))"
    using cs eq by simp
qed

lemma div_ticks:
  fixes d :: int
  obtains q where "d div 1000000000 = q" "q * 1000000000 \<le> d" "d < q * 1000000000 + 1000000000"
proof -
  have a: "d div 1000000000 * 1000000000 + d mod 1000000000 = d" by simp
  have b: "0 \<le> d mod 1000000000" by simp
  have c: "d mod 1000000000 < 1000000000" by simp
  define q where "q = d div 1000000000"
  define r where "r = d mod 1000000000"
  have "q * 1000000000 + r = d" "0 \<le> r" "r < 1000000000"
    using a b c by (simp_all add: q_def r_def)
  then have "q * 1000000000 \<le> d" "d < q * 1000000000 + 1000000000" by linarith+
  then show ?thesis using that [of q] by (simp add: q_def)
qed

lemma duration_cast_seconds_gt:
  "t < duration_cast_seconds d \<Longrightarrow> t * ticks_per_second < d"
proof (cases "0 \<le> d")
  case True
  assume t: "t < duration_cast_seconds d"
  obtain q where q: "d div 1000000000 = q" "q * 1000000000 \<le> d"
    by (rule div_ticks)
  from t True have "t + 1 \<le> q"
    by (simp add: duration_cast_seconds_def ticks_per_second_def q)
  then have "t * 1000000000 < d" using q(2) by linarith
  then show ?thesis by (simp add: ticks_per_second_def)
next
  case False
  assume t: "t < duration_cast_seconds d"
  obtain q where q: "(- d) div 1000000000 = q" "- d < q * 1000000000 + 1000000000"
    by (rule div_ticks)
  from t False have "q + 1 \<le> - t"
    by (simp add: duration_cast_seconds_def ticks_per_second_def q)
  then have "t * 1000000000 < d" using q(2) by linarith
  then show ?thesis by (simp add: ticks_per_second_def)
qed

lemma duration_cast_seconds_whole:
  "0 \<le> t \<Longrightarrow> (t < duration_cast_seconds d) = ((t + 1) * ticks_per_second \<le> d)"
proof (cases "0 \<le> d")
  case True
  assume "0 \<le> t"
  obtain q where q: "d div 1000000000 = q" "q * 1000000000 \<le> d"
      "d < q * 1000000000 + 1000000000"
    by (rule div_ticks)
  have "(t < q) = ((t + 1) * 1000000000 \<le> d)"
    using q(2,3) by (auto; linarith)
  with True show ?thesis
    by (simp add: duration_cast_seconds_def ticks_per_second_def q)
next
  case False
  assume t: "0 \<le> t"
  obtain q where q: "(- d) div 1000000000 = q" "q * 1000000000 \<le> - d"
      "- d < q * 1000000000 + 1000000000"
    by (rule div_ticks)
  from False q have "0 \<le> q" by linarith
  with False t show ?thesis
    by (simp add: duration_cast_seconds_def ticks_per_second_def q)
qed

lemma setMutex_False_twice: "setMutex False (setMutex False w) = setMutex False w"
  by (simp add: setMutex_def)

lemma setMutex_True_over: "setMutex True (setMutex b w) = setMutex True w"
  by (simp add: setMutex_def)

lemma swapOutLoop_released_callback:
  "swapOutLoop swapOut ps (w, tr)
     = swapOutLoop (\<lambda>q v. setMutex b (swapOut q (setMutex False v))) ps (w, tr)"
  by (induction ps arbitrary: w tr)
     (simp_all add: Let_def setMutex_False_twice setMutex_True_over)

lemma setMutex_keeps [simp]:
  "mnMemoryLimit (manager (setMutex b w)) = mnMemoryLimit (manager w)"
  "mbSwapEnabled (manager (setMutex b w)) = mbSwapEnabled (manager w)"
  "mbReducingGraphicMemory (manager (setMutex b w)) = mbReducingGraphicMemory (manager w)"
  "mnAllowedIdleTime (manager (setMutex b w)) = mnAllowedIdleTime (manager w)"
  "clock (setMutex b w) = clock w"
  by (simp_all add: setMutex_def)

lemma reduce_trace:
  "snapshots (snd (reduceGraphicMemory swapOut (w, [])))
     = (if mbSwapEnabled (manager w) \<and> \<not> usedSize w < mnMemoryLimit (manager w)
           \<and> \<not> mbReducingGraphicMemory (manager w)
        then [registry w] else [])"
  "swapOutCalls (snd (reduceGraphicMemory swapOut (w, [])))
     = (if mbSwapEnabled (manager w) \<and> \<not> usedSize w < mnMemoryLimit (manager w)
           \<and> \<not> mbReducingGraphicMemory (manager w)
        then swapOutCalls (snd (loopGraphicsAndSwapOut swapOut (setReducing True w, [])))
        else [])"
proof -
  have r: "snd (reduceGraphicMemory swapOut (w, []))
     = (if mbSwapEnabled (manager w) \<and> \<not> usedSize w < mnMemoryLimit (manager w)
           \<and> \<not> mbReducingGraphicMemory (manager w)
        then snd (loopGraphicsAndSwapOut swapOut (setReducing True w, [])) else [])"
    by (simp add: reduceGraphicMemory_def split: prod.splits)
  have s: "snapshots (snd (loopGraphicsAndSwapOut swapOut (setReducing True w, []))) = [registry w]"
    by (subst loop_trace_shape) (simp add: snapshots_released setReducing_def)
  show "snapshots (snd (reduceGraphicMemory swapOut (w, [])))
     = (if mbSwapEnabled (manager w) \<and> \<not> usedSize w < mnMemoryLimit (manager w)
           \<and> \<not> mbReducingGraphicMemory (manager w)
        then [registry w] else [])"
    by (simp add: r s)
  show "swapOutCalls (snd (reduceGraphicMemory swapOut (w, [])))
     = (if mbSwapEnabled (manager w) \<and> \<not> usedSize w < mnMemoryLimit (manager w)
           \<and> \<not> mbReducingGraphicMemory (manager w)
        then swapOutCalls (snd (loopGraphicsAndSwapOut swapOut (setReducing True w, [])))
        else [])"
    by (simp add: r)
qed

lemma register_trace:
  "registerGraphic_makeSpace swapOut (w, []) = (w1, tr1) \<Longrightarrow>
   snapshots (snd (registerGraphic swapOut p (w, []))) = snapshots tr1
   \<and> swapOutCalls (snd (registerGraphic swapOut p (w, []))) = swapOutCalls tr1"
  by (simp add: registerGraphic_result snapshots_append swapOutCalls_append)

subsection \<open>The sample worlds, evaluated\<close>

lemma sample_limit_bits: "bit_length 1000001 = 20"
  by (simp add: bit_length.simps)

lemma sample_product_bits: "bit_length 6305045783358172318694 = 73"
  by (simp add: bit_length.simps)

lemma sample_limit_rounded: "round_to_double 1000001 = 1000001"
  by (simp add: round_to_double_def sample_limit_bits)

lemma sample_product_rounded: "round_to_double 6305045783358172318694 = 6305045783358172299264"
  by (simp add: round_to_double_def sample_product_bits)

lemma threshold_sample: "swapOutThreshold 1000001 = 700000"
  by (simp add: swapOutThreshold_def sample_limit_rounded sample_product_rounded)

text \<open>The default limit of 300,000,000 bytes gives a threshold of 210,000,000.\<close>

lemma default_limit_bits: "bit_length 300000000 = 29"
  by (simp add: bit_length.simps)

lemma default_product_bits: "bit_length 1891511843495608200000000 = 81"
  by (simp add: bit_length.simps)

lemma threshold_default: "swapOutThreshold 300000000 = 210000000"
proof -
  have "round_to_double 300000000 = 300000000"
    by (simp add: round_to_double_def default_limit_bits)
  moreover have "round_to_double 1891511843495608200000000 = 1891511843495608320000000"
    by (simp add: round_to_double_def default_product_bits)
  ultimately show ?thesis
    by (simp add: swapOutThreshold_def)
qed

lemma sampleWorld_value:
  "sampleWorld swap now =
   \<lparr>manager = \<lparr>mnAllowedIdleTime = 10, mbSwapEnabled = swap, mbReducingGraphicMemory = False,
      mnMemoryLimit = 1000001, mnUsedSize = 1500001,
      maSwapOutTimer = (if swap then \<lparr>timerTimeout = Some 10000, timerActive = True\<rparr>
              else \<lparr>timerTimeout = None, timerActive = False\<rparr>),
      m_pImpGraphicList = sv_insert 32 (sv_insert 16 sv_empty), maMutex = False\<rparr>,
     objects = twoGraphics, clock = now\<rparr>"
  by (simp add: sampleWorld_def eval_simps)

lemma registeredWorld_value:
  "registeredWorld = \<lparr>manager = \<lparr>mnAllowedIdleTime = 10, mbSwapEnabled = True,
      mbReducingGraphicMemory = False, mnMemoryLimit = 300000000, mnUsedSize = 0,
      maSwapOutTimer = \<lparr>timerTimeout = Some 10000, timerActive = True\<rparr>,
      m_pImpGraphicList = sv_insert 16 sv_empty, maMutex = False\<rparr>,
     objects = swappedOutGraphics, clock = 0\<rparr>"
  by (simp add: registeredWorld_def eval_simps)

lemma registeredWorld_facts:
  "isSwappedOut (objects registeredWorld 16)" "isAvailable (objects registeredWorld 16)"
  "getSizeBytes (objects registeredWorld 16) = 500"
  "usedSize registeredWorld = 0" "sumOfSwappedIn registeredWorld = 0"
  "registry registeredWorld = [16]"
  "registry (unregisterGraphic 16 registeredWorld) = []"
  by (simp_all add: registeredWorld_value unregisterGraphic_fields sumOfSwappedIn_def
        swappedOutGraphics_def graphic_def)




lemma sample_sweep_calls:
  "map callSummary (swapOutCalls (snd (loopGraphicsAndSwapOut ImpGraphic_swapOut
      (sampleWorld True 60000000000, []))))
   = [(16, 1500001, False), (32, 700000, False)]"
  by (simp add: sampleWorld_value eval_simps threshold_sample callSummary_def)

lemma early_sweep:
  "swapOutCalls (snd (loopGraphicsAndSwapOut ImpGraphic_swapOut
      (sampleWorld True 10500000000, []))) = []"
  by (simp add: sampleWorld_value eval_simps threshold_sample callSummary_def)

lemma lighterWorld_value:
  "lighterWorld =
   \<lparr>manager = \<lparr>mnAllowedIdleTime = 10, mbSwapEnabled = True, mbReducingGraphicMemory = False,
      mnMemoryLimit = 1000001, mnUsedSize = 1400001,
      maSwapOutTimer = \<lparr>timerTimeout = Some 10000, timerActive = True\<rparr>,
      m_pImpGraphicList = sv_insert 32 (sv_insert 16 sv_empty), maMutex = False\<rparr>,
     objects = twoGraphics(32 := graphic 600000), clock = 60000000000\<rparr>"
  by (simp add: lighterWorld_def sampleWorld_value eval_simps)

lemma lighter_sweep:
  "map callSummary (swapOutCalls (snd (swapOutLoop ImpGraphic_swapOut [16, 32] (lighterWorld, []))))
     = [(16, 1400001, False)]"
  "usedSize (fst (swapOutLoop ImpGraphic_swapOut [16] (lighterWorld, []))) = 600000"
  "mnMemoryLimit (manager (fst (swapOutLoop ImpGraphic_swapOut [16] (lighterWorld, [])))) = 1000001"
  by (simp_all add: lighterWorld_value eval_simps threshold_sample callSummary_def)

lemma busy_sweep:
  "map callSummary (swapOutCalls (snd (loopGraphicsAndSwapOut ImpGraphic_swapOut (busyWorld, []))))
     = [(32, 1500001, False)]"
  by (simp add: busyWorld_def sampleWorld_value eval_simps threshold_sample callSummary_def)

lemma busyWorld_facts:
  "mpContext (objects busyWorld 16)" "registry busyWorld = [16, 32]"
  "\<not> usedSize busyWorld < swapOutThreshold (mnMemoryLimit (manager busyWorld))"
  by (simp_all add: busyWorld_def sampleWorld_value setObject_def threshold_sample)

lemma halfSecond_facts:
  "mnAllowedIdleTime (manager (sampleWorld True 10500000000)) = 10"
  "clock (sampleWorld True 10500000000) = 10500000000"
  "maLastUsed (objects (sampleWorld True 10500000000) 16) = 0"
  "\<not> isSwappedOut (objects (sampleWorld True 10500000000) 16)"
  "getGraphicSizeBytes (objects (sampleWorld True 10500000000) 16) = 800001"
  "\<not> mpContext (objects (sampleWorld True 10500000000) 16)"
  "usedSize (sampleWorld True 10500000000) = 1500001"
  "swapOutThreshold (mnMemoryLimit (manager (sampleWorld True 10500000000))) = 700000"
  "registry (sampleWorld True 10500000000) = [16, 32]"
  by (simp_all add: sampleWorld_value threshold_sample twoGraphics_def graphic_def
        getGraphicSizeBytes_def)

lemma minute_facts:
  "\<not> usedSize (sampleWorld True 60000000000)
       < swapOutThreshold (mnMemoryLimit (manager (sampleWorld True 60000000000)))"
  "\<not> isSwappedOut (objects (sampleWorld True 60000000000) 16)"
  "100000 < getGraphicSizeBytes (objects (sampleWorld True 60000000000) 16)"
  "\<not> mpContext (objects (sampleWorld True 60000000000) 16)"
  "mnAllowedIdleTime (manager (sampleWorld True 60000000000))
     < duration_cast_seconds (clock (sampleWorld True 60000000000)
         - maLastUsed (objects (sampleWorld True 60000000000) 16))"
  "mnAllowedIdleTime (manager (sampleWorld True 60000000000)) = 10"
  by (simp_all add: sampleWorld_value threshold_sample twoGraphics_def graphic_def
        getGraphicSizeBytes_def duration_cast_seconds_def ticks_per_second_def)

lemma lockedWorld_value:
  "lockedWorld =
   \<lparr>manager = \<lparr>mnAllowedIdleTime = 10, mbSwapEnabled = True, mbReducingGraphicMemory = False,
      mnMemoryLimit = 1000001, mnUsedSize = 1500001,
      maSwapOutTimer = \<lparr>timerTimeout = Some 10000, timerActive = True\<rparr>,
      m_pImpGraphicList = sv_insert 32 (sv_insert 16 sv_empty), maMutex = True\<rparr>,
     objects = twoGraphics, clock = 60000000000\<rparr>"
  by (simp add: lockedWorld_def sampleWorld_value setMutex_def)

lemma locked_guards:
  "\<not> usedSize lockedWorld < swapOutThreshold (mnMemoryLimit (manager lockedWorld))"
  "\<not> isSwappedOut (objects lockedWorld 16)"
  "100000 < getGraphicSizeBytes (objects lockedWorld 16)"
  "\<not> mpContext (objects lockedWorld 16)"
  "mnAllowedIdleTime (manager lockedWorld)
     < duration_cast_seconds (clock lockedWorld - maLastUsed (objects lockedWorld 16))"
  "maMutex (manager lockedWorld)"
  by (simp_all add: lockedWorld_value threshold_sample twoGraphics_def graphic_def
        getGraphicSizeBytes_def duration_cast_seconds_def ticks_per_second_def)

lemma reentering_sweep:
  "isSwappedOut (objects (fst (loopGraphicsAndSwapOut reenteringSwapOut (lockedWorld, []))) 16)"
  "isSwappedOut (objects (fst (loopGraphicsAndSwapOut reenteringSwapOut (lockedWorld, []))) 32)"
  "usedSize (fst (loopGraphicsAndSwapOut reenteringSwapOut (lockedWorld, []))) = 0"
  "map callSummary (swapOutCalls (snd (loopGraphicsAndSwapOut reenteringSwapOut (lockedWorld, []))))
     = [(16, 1500001, False), (32, 700000, False)]"
  by (simp_all add: lockedWorld_value reenteringSwapOut_def eval_simps threshold_sample
        callSummary_def)

lemma register_sample_sweep:
  "map callSummary (swapOutCalls (snd (loopGraphicsAndSwapOut ImpGraphic_swapOut
      (setReducing True (setMutex True (sampleWorld True 60000000000)), []))))
   = [(16, 1500001, False), (32, 700000, False)]"
  by (simp add: sampleWorld_value eval_simps threshold_sample callSummary_def)

lemma register_sample_facts:
  "mnMemoryLimit (manager (sampleWorld True 60000000000)) < usedSize (sampleWorld True 60000000000)"
  "mbSwapEnabled (manager (sampleWorld True 60000000000))"
  "\<not> mbReducingGraphicMemory (manager (sampleWorld True 60000000000))"
  "registry (sampleWorld True 60000000000) = [16, 32]"
  by (simp_all add: sampleWorld_value)

lemma entry_facts:
  "\<not> mbSwapEnabled (manager (sampleWorld False 60000000000))"
  "mbReducingGraphicMemory (manager reducingWorld)"
  "mbSwapEnabled (manager reducingWorld)"
  "\<not> usedSize reducingWorld < mnMemoryLimit (manager reducingWorld)"
  "mbSwapEnabled (manager smallWorld)"
  "usedSize smallWorld < mnMemoryLimit (manager smallWorld)"
  "mbSwapEnabled (manager (sampleWorld True 60000000000))"
  "\<not> usedSize (sampleWorld True 60000000000) < mnMemoryLimit (manager (sampleWorld True 60000000000))"
  "\<not> mbReducingGraphicMemory (manager (sampleWorld True 60000000000))"
  by (simp_all add: reducingWorld_def smallWorld_def sampleWorld_value eval_simps)

subsection \<open>The counter and the sum\<close>



subsection \<open>Registration\<close>

text \<open>
  Claim C2. \<^verbatim>\<open>registerGraphic\<close> has no failing branch: it is a total function of the
  world. Whatever the state it is called in and whatever the swap-out callbacks of a
  preceding sweep did, it ends by storing the freshly calculated size in the counter; the
  \<^verbatim>\<open>SAL_INFO\<close> line is written exactly when the incrementally kept counter differed.
  Afterwards the object is a member of the registry and the counter is the sum of the sizes
  over the members that are swapped in.
\<close>

theorem registerGraphic_recalculates:
  "registerGraphic swapOut p s =
     (case registerGraphic_makeSpace swapOut s of (w1, tr1) \<Rightarrow>
        (let w2 = registerGraphic_insert p w1
         in (setMutex False (setUsedSize (calculatedSize w2) w2),
             tr1 @ (if calculatedSize w2 \<noteq> usedSize w2
                    then [EvSalInfo (usedSize w2) (calculatedSize w2)] else []))))
   \<and> p \<in> set (registry (fst (registerGraphic swapOut p s)))
   \<and> usedSize (fst (registerGraphic swapOut p s))
       = sumOfSwappedIn (fst (registerGraphic swapOut p s))"
proof -
  obtain w1 tr1 where ms: "registerGraphic_makeSpace swapOut s = (w1, tr1)"
    by (cases "registerGraphic_makeSpace swapOut s")
  have mem: "p \<in> set (registry (registerGraphic_insert p w1))"
    by (simp add: registerGraphic_insert_def set_ins_sorted)
  show ?thesis
    using mem by (simp add: registerGraphic_result [OF ms] ms Let_def calculatedSize_is_sum)
qed

text \<open>
  Claim C3, as amended. \<^verbatim>\<open>registerGraphic\<close> calls \<^verbatim>\<open>reduceGraphicMemory\<close> exactly when the
  counter exceeds the limit on entry, before it inserts and counts the new object. The
  sweep itself then runs exactly when, besides, swapping is enabled and no reduction is in
  progress; it iterates over the registry as it was on entry, and its calls are those of
  the sweep of the world as it was on entry.
\<close>

theorem registerGraphic_sweeps_first:
  "registerGraphic_makeSpace swapOut (w, tr)
     = (if mnMemoryLimit (manager w) < usedSize w
        then reduceGraphicMemory swapOut (setMutex True w, tr) else (setMutex True w, tr))
   \<and> snapshots (snd (registerGraphic swapOut p (w, [])))
       = (if mnMemoryLimit (manager w) < usedSize w \<and> mbSwapEnabled (manager w)
             \<and> \<not> mbReducingGraphicMemory (manager w)
          then [registry w] else [])
   \<and> swapOutCalls (snd (registerGraphic swapOut p (w, [])))
       = (if mnMemoryLimit (manager w) < usedSize w \<and> mbSwapEnabled (manager w)
             \<and> \<not> mbReducingGraphicMemory (manager w)
          then swapOutCalls (snd (loopGraphicsAndSwapOut swapOut
                    (setReducing True (setMutex True w), [])))
          else [])"
proof -
  have ms: "registerGraphic_makeSpace swapOut (w, tr)
     = (if mnMemoryLimit (manager w) < usedSize w
        then reduceGraphicMemory swapOut (setMutex True w, tr) else (setMutex True w, tr))" for tr
    by (simp add: registerGraphic_makeSpace_def Let_def)
  obtain w1 tr1 where m: "registerGraphic_makeSpace swapOut (w, []) = (w1, tr1)"
    by (cases "registerGraphic_makeSpace swapOut (w, [])")
  have tr1: "tr1 = (if mnMemoryLimit (manager w) < usedSize w
        then snd (reduceGraphicMemory swapOut (setMutex True w, [])) else [])"
    using m ms [of "[]"] by (auto split: if_splits)
  have a: "snapshots tr1 = (if mnMemoryLimit (manager w) < usedSize w \<and> mbSwapEnabled (manager w)
             \<and> \<not> mbReducingGraphicMemory (manager w)
          then [registry w] else [])"
    by (auto simp: tr1 reduce_trace)
  have b: "swapOutCalls tr1 = (if mnMemoryLimit (manager w) < usedSize w \<and> mbSwapEnabled (manager w)
             \<and> \<not> mbReducingGraphicMemory (manager w)
          then swapOutCalls (snd (loopGraphicsAndSwapOut swapOut
                    (setReducing True (setMutex True w), [])))
          else [])"
    by (auto simp: tr1 reduce_trace)
  show ?thesis
    using register_trace [OF m, of p] ms [of tr] a b by simp
qed

theorem registerGraphic_sweeps_first_witness:
  "mnMemoryLimit (manager (sampleWorld True 60000000000)) < usedSize (sampleWorld True 60000000000)
   \<and> snapshots (snd (registerGraphic ImpGraphic_swapOut 48 (sampleWorld True 60000000000, [])))
       = [[16, 32]]
   \<and> map callSummary
         (swapOutCalls (snd (registerGraphic ImpGraphic_swapOut 48 (sampleWorld True 60000000000, []))))
       = [(16, 1500001, False), (32, 700000, False)]"
  using registerGraphic_sweeps_first [where swapOut = ImpGraphic_swapOut
      and w = "sampleWorld True 60000000000" and p = 48 and tr = "[]"]
    register_sample_sweep register_sample_facts
  by simp

text \<open>
  With swapping disabled a registration above the limit sweeps nothing: the two sample
  graphics are idle for a minute and take 1,500,001 bytes of a limit of 1,000,001.
\<close>

theorem register_without_sweep_counterexample:
  "mnMemoryLimit (manager (sampleWorld False 60000000000)) < usedSize (sampleWorld False 60000000000)
   \<and> snapshots (snd (registerGraphic ImpGraphic_swapOut 48 (sampleWorld False 60000000000, []))) = []
   \<and> swapOutCalls (snd (registerGraphic ImpGraphic_swapOut 48 (sampleWorld False 60000000000, []))) = []"
  by (simp add: sampleWorld_value eval_simps)

subsection \<open>The sweep\<close>

text \<open>
  Claim C4, as amended. The sweep compares the counter with
  \<^verbatim>\<open>sal_Int64(mnMemoryLimit * 0.7)\<close>, the product truncated to an integer, before it looks
  at each object of its copy. Once the counter is below that number the sweep is over:
  the world and the trace stay as they are, whatever is left of the copy; and no object's
  \<^verbatim>\<open>swapOut()\<close> is called while the counter is below it.
\<close>

theorem sweep_stops_below_threshold:
  "(usedSize w < swapOutThreshold (mnMemoryLimit (manager w))
      \<longrightarrow> swapOutLoop swapOut ps (w, tr) = (w, tr))
   \<and> (usedSize (fst (swapOutLoop swapOut ps (w, tr)))
        < swapOutThreshold (mnMemoryLimit (manager (fst (swapOutLoop swapOut ps (w, tr)))))
      \<longrightarrow> swapOutLoop swapOut (ps @ qs) (w, tr) = swapOutLoop swapOut ps (w, tr))
   \<and> list_all (\<lambda>c. \<not> usedSize (snd c) < swapOutThreshold (mnMemoryLimit (manager (snd c))))
        (swapOutCalls (snd (loopGraphicsAndSwapOut swapOut (w, []))))"
proof (intro conjI impI)
  assume "usedSize w < swapOutThreshold (mnMemoryLimit (manager w))"
  then show "swapOutLoop swapOut ps (w, tr) = (w, tr)" by (rule swapOutLoop_below)
next
  assume b: "usedSize (fst (swapOutLoop swapOut ps (w, tr)))
        < swapOutThreshold (mnMemoryLimit (manager (fst (swapOutLoop swapOut ps (w, tr)))))"
  obtain w' tr' where r: "swapOutLoop swapOut ps (w, tr) = (w', tr')"
    by (cases "swapOutLoop swapOut ps (w, tr)")
  with b have "swapOutLoop swapOut qs (w', tr') = (w', tr')"
    by (simp add: swapOutLoop_below)
  then show "swapOutLoop swapOut (ps @ qs) (w, tr) = swapOutLoop swapOut ps (w, tr)"
    by (simp add: swapOutLoop_append r)
next
  show "list_all (\<lambda>c. \<not> usedSize (snd c) < swapOutThreshold (mnMemoryLimit (manager (snd c))))
        (swapOutCalls (snd (loopGraphicsAndSwapOut swapOut (w, []))))"
    using loop_calls_checked [of swapOut w]
    by (simp add: list_all_iff callChecked_def)
qed

theorem sweep_stops_below_threshold_witness:
  "usedSize (fst (swapOutLoop ImpGraphic_swapOut [16] (lighterWorld, []))) = 600000
   \<and> swapOutThreshold
         (mnMemoryLimit (manager (fst (swapOutLoop ImpGraphic_swapOut [16] (lighterWorld, [])))))
       = 700000
   \<and> swapOutLoop ImpGraphic_swapOut ([16] @ [32]) (lighterWorld, [])
       = swapOutLoop ImpGraphic_swapOut [16] (lighterWorld, [])
   \<and> map callSummary
         (swapOutCalls (snd (swapOutLoop ImpGraphic_swapOut [16, 32] (lighterWorld, []))))
       = [(16, 1400001, False)]"
  using sweep_stops_below_threshold [where swapOut = ImpGraphic_swapOut and ps = "[16]"
      and w = lighterWorld and tr = "[]" and qs = "[32]"]
    lighter_sweep
  by (simp add: threshold_sample)

text \<open>
  Below seven tenths of the limit is not enough. With a limit of 1,000,001 bytes the
  truncated product is 700,000; after the first graphic has gone the counter is 700,000,
  which is below 700,000.7, and the sweep goes on to swap out the second graphic.
\<close>

theorem sweep_continues_counterexample:
  "map callSummary (swapOutCalls (snd (loopGraphicsAndSwapOut ImpGraphic_swapOut
      (sampleWorld True 60000000000, []))))
     = [(16, 1500001, False), (32, 700000, False)]
   \<and> 10 * (700000 :: int) < 7 * mnMemoryLimit (manager (sampleWorld True 60000000000))"
  using sample_sweep_calls by (simp add: sampleWorld_value)

text \<open>
  Claim C5. Every object whose \<^verbatim>\<open>swapOut()\<close> a sweep calls is, at the call, not swapped
  out, larger than 100,000 bytes and without an operation in progress; and an object that
  is swapped out, or of at most 100,000 bytes, or has an operation in progress, is passed
  over without a call.
\<close>

theorem sweep_calls_only_eligible:
  "list_all (\<lambda>c. \<not> isSwappedOut (calledObject c) \<and> 100000 < getGraphicSizeBytes (calledObject c)
                \<and> \<not> mpContext (calledObject c))
     (swapOutCalls (snd (loopGraphicsAndSwapOut swapOut (w, []))))
   \<and> (isSwappedOut (objects w p) \<or> getGraphicSizeBytes (objects w p) \<le> 100000
        \<or> mpContext (objects w p)
      \<longrightarrow> swapOutLoop swapOut (p # ps) (w, tr)
            = (if usedSize w < swapOutThreshold (mnMemoryLimit (manager w)) then (w, tr)
               else swapOutLoop swapOut ps (w, tr)))"
proof (intro conjI impI)
  show "list_all (\<lambda>c. \<not> isSwappedOut (calledObject c) \<and> 100000 < getGraphicSizeBytes (calledObject c)
                \<and> \<not> mpContext (calledObject c))
     (swapOutCalls (snd (loopGraphicsAndSwapOut swapOut (w, []))))"
    using loop_calls_checked [of swapOut w]
    by (simp add: list_all_iff callChecked_def)
next
  assume "isSwappedOut (objects w p) \<or> getGraphicSizeBytes (objects w p) \<le> 100000
        \<or> mpContext (objects w p)"
  then show "swapOutLoop swapOut (p # ps) (w, tr)
            = (if usedSize w < swapOutThreshold (mnMemoryLimit (manager w)) then (w, tr)
               else swapOutLoop swapOut ps (w, tr))"
    by (auto simp: Let_def)
qed

theorem sweep_calls_only_eligible_witness:
  "mpContext (objects busyWorld 16)
   \<and> swapOutLoop ImpGraphic_swapOut (16 # [32]) (busyWorld, [])
       = swapOutLoop ImpGraphic_swapOut [32] (busyWorld, [])
   \<and> map callSummary
         (swapOutCalls (snd (loopGraphicsAndSwapOut ImpGraphic_swapOut (busyWorld, []))))
       = [(32, 1500001, False)]
   \<and> list_all (\<lambda>c. \<not> isSwappedOut (calledObject c) \<and> 100000 < getGraphicSizeBytes (calledObject c)
                \<and> \<not> mpContext (calledObject c))
        (swapOutCalls (snd (loopGraphicsAndSwapOut ImpGraphic_swapOut (busyWorld, []))))"
  using sweep_calls_only_eligible [where swapOut = ImpGraphic_swapOut and w = busyWorld
      and p = 16 and ps = "[32]" and tr = "[]"]
    busyWorld_facts busy_sweep
  by simp

text \<open>
  Claim C6, as amended. The idle time is cast to whole seconds, truncating, before it is
  compared. So every object a sweep swaps out has been idle for more whole seconds than
  the allowed idle time, and hence not for less than the allowed idle time; and an object
  that the sweep reaches above the threshold, swapped in, larger than 100,000 bytes,
  without an operation in progress and idle for more whole seconds than allowed is swapped
  out: the guard is released, its \<^verbatim>\<open>swapOut()\<close> called, the guard taken again. For an
  allowed idle time that is not negative, more whole seconds than allowed means idle for at
  least one second more than allowed.
\<close>

theorem sweep_calls_after_whole_seconds:
  "list_all (\<lambda>c. mnAllowedIdleTime (manager (snd c)) < duration_cast_seconds (idleTicks c)
                \<and> \<not> idleTicks c < mnAllowedIdleTime (manager (snd c)) * ticks_per_second)
     (swapOutCalls (snd (loopGraphicsAndSwapOut swapOut (w, []))))
   \<and> (\<not> usedSize w < swapOutThreshold (mnMemoryLimit (manager w))
        \<and> \<not> isSwappedOut (objects w p) \<and> 100000 < getGraphicSizeBytes (objects w p)
        \<and> \<not> mpContext (objects w p)
        \<and> mnAllowedIdleTime (manager w)
            < duration_cast_seconds (clock w - maLastUsed (objects w p))
      \<longrightarrow> swapOutLoop swapOut (p # ps) (w, tr)
            = swapOutLoop swapOut ps
                (setMutex True (swapOut p (setMutex False w)),
                 tr @ releasedCall (p, setMutex False w)))
   \<and> (0 \<le> mnAllowedIdleTime (manager w)
      \<longrightarrow> (mnAllowedIdleTime (manager w) < duration_cast_seconds d)
            = ((mnAllowedIdleTime (manager w) + 1) * ticks_per_second \<le> d))"
proof (intro conjI impI)
  have "\<And>c. callChecked c \<Longrightarrow>
      \<not> idleTicks c < mnAllowedIdleTime (manager (snd c)) * ticks_per_second"
    using duration_cast_seconds_gt by (fastforce simp: callChecked_def)
  then show "list_all (\<lambda>c. mnAllowedIdleTime (manager (snd c)) < duration_cast_seconds (idleTicks c)
                \<and> \<not> idleTicks c < mnAllowedIdleTime (manager (snd c)) * ticks_per_second)
     (swapOutCalls (snd (loopGraphicsAndSwapOut swapOut (w, []))))"
    using loop_calls_checked [of swapOut w]
    by (simp add: list_all_iff callChecked_def)
next
  assume "\<not> usedSize w < swapOutThreshold (mnMemoryLimit (manager w))
        \<and> \<not> isSwappedOut (objects w p) \<and> 100000 < getGraphicSizeBytes (objects w p)
        \<and> \<not> mpContext (objects w p)
        \<and> mnAllowedIdleTime (manager w)
            < duration_cast_seconds (clock w - maLastUsed (objects w p))"
  then show "swapOutLoop swapOut (p # ps) (w, tr)
            = swapOutLoop swapOut ps
                (setMutex True (swapOut p (setMutex False w)),
                 tr @ releasedCall (p, setMutex False w))"
    by (simp add: Let_def releasedCall_def)
next
  assume "0 \<le> mnAllowedIdleTime (manager w)"
  then show "(mnAllowedIdleTime (manager w) < duration_cast_seconds d)
            = ((mnAllowedIdleTime (manager w) + 1) * ticks_per_second \<le> d)"
    by (rule duration_cast_seconds_whole)
qed

theorem sweep_calls_after_whole_seconds_witness:
  "\<not> usedSize (sampleWorld True 60000000000)
       < swapOutThreshold (mnMemoryLimit (manager (sampleWorld True 60000000000)))
   \<and> \<not> isSwappedOut (objects (sampleWorld True 60000000000) 16)
   \<and> 100000 < getGraphicSizeBytes (objects (sampleWorld True 60000000000) 16)
   \<and> \<not> mpContext (objects (sampleWorld True 60000000000) 16)
   \<and> mnAllowedIdleTime (manager (sampleWorld True 60000000000))
       < duration_cast_seconds (clock (sampleWorld True 60000000000)
           - maLastUsed (objects (sampleWorld True 60000000000) 16))
   \<and> swapOutLoop ImpGraphic_swapOut (16 # [32]) (sampleWorld True 60000000000, [])
       = swapOutLoop ImpGraphic_swapOut [32]
           (setMutex True (ImpGraphic_swapOut 16 (setMutex False (sampleWorld True 60000000000))),
            [] @ releasedCall (16, setMutex False (sampleWorld True 60000000000)))
   \<and> ((10 :: int) < duration_cast_seconds 11000000000) = ((10 + 1) * ticks_per_second \<le> 11000000000)
   \<and> map callSummary (swapOutCalls (snd (loopGraphicsAndSwapOut ImpGraphic_swapOut
         (sampleWorld True 60000000000, []))))
       = [(16, 1500001, False), (32, 700000, False)]"
  using sweep_calls_after_whole_seconds [where swapOut = ImpGraphic_swapOut
      and w = "sampleWorld True 60000000000" and p = 16 and ps = "[32]" and tr = "[]"
      and d = 11000000000]
    minute_facts sample_sweep_calls
  by simp

text \<open>
  Idle for more than the allowed time is not enough. After 10.5 seconds, with 10 seconds
  allowed, the sweep reaches both sample graphics and swaps out neither.
\<close>

theorem idle_half_second_counterexample:
  "mnAllowedIdleTime (manager (sampleWorld True 10500000000)) * ticks_per_second
     < clock (sampleWorld True 10500000000)
       - maLastUsed (objects (sampleWorld True 10500000000) 16)
   \<and> \<not> isSwappedOut (objects (sampleWorld True 10500000000) 16)
   \<and> 100000 < getGraphicSizeBytes (objects (sampleWorld True 10500000000) 16)
   \<and> \<not> mpContext (objects (sampleWorld True 10500000000) 16)
   \<and> \<not> usedSize (sampleWorld True 10500000000)
         < swapOutThreshold (mnMemoryLimit (manager (sampleWorld True 10500000000)))
   \<and> 16 \<in> set (registry (sampleWorld True 10500000000))
   \<and> swapOutCalls (snd (loopGraphicsAndSwapOut ImpGraphic_swapOut
         (sampleWorld True 10500000000, []))) = []"
  using early_sweep by (simp add: halfSecond_facts ticks_per_second_def)

text \<open>
  Claim C9. When the sweep swaps an object out it releases the guard, calls the object's
  \<^verbatim>\<open>swapOut()\<close> on the world with the mutex released, and takes the guard again on what
  the call returns before it goes on with the rest of its copy. Over a whole sweep the
  callback is therefore only ever applied to a world with the mutex released, and whatever
  it leaves in the mutex flag is overwritten: the sweep is the same with a callback that
  is first handed the released world and whose result has the flag set either way. The
  trace is the copy of the registry followed, for each call, by the release, the call and
  the reacquisition with nothing in between, and a sweep entered with the mutex held
  returns with the mutex held.
\<close>

theorem sweep_releases_guard_around_calls:
  "(\<not> usedSize w < swapOutThreshold (mnMemoryLimit (manager w))
        \<and> \<not> isSwappedOut (objects w p) \<and> 100000 < getGraphicSizeBytes (objects w p)
        \<and> \<not> mpContext (objects w p)
        \<and> mnAllowedIdleTime (manager w)
            < duration_cast_seconds (clock w - maLastUsed (objects w p))
      \<longrightarrow> swapOutLoop swapOut (p # ps) (w, tr)
            = swapOutLoop swapOut ps
                (setMutex True (swapOut p (setMutex False w)),
                 tr @ [EvUnlock, EvSwapOut p (setMutex False w), EvLock])
          \<and> \<not> maMutex (manager (setMutex False w))
          \<and> maMutex (manager (setMutex True (swapOut p (setMutex False w)))))
   \<and> loopGraphicsAndSwapOut swapOut (w, tr)
       = loopGraphicsAndSwapOut (\<lambda>q v. setMutex b (swapOut q (setMutex False v))) (w, tr)
   \<and> snd (loopGraphicsAndSwapOut swapOut (w, []))
       = EvSnapshot (registry w)
         # concat (map releasedCall (swapOutCalls (snd (loopGraphicsAndSwapOut swapOut (w, [])))))
   \<and> list_all (\<lambda>c. \<not> maMutex (manager (snd c)))
        (swapOutCalls (snd (loopGraphicsAndSwapOut swapOut (w, []))))
   \<and> (maMutex (manager w) \<longrightarrow> maMutex (manager (fst (loopGraphicsAndSwapOut swapOut (w, [])))))"
proof (intro conjI impI)
  assume g: "\<not> usedSize w < swapOutThreshold (mnMemoryLimit (manager w))
        \<and> \<not> isSwappedOut (objects w p) \<and> 100000 < getGraphicSizeBytes (objects w p)
        \<and> \<not> mpContext (objects w p)
        \<and> mnAllowedIdleTime (manager w)
            < duration_cast_seconds (clock w - maLastUsed (objects w p))"
  then show "swapOutLoop swapOut (p # ps) (w, tr)
            = swapOutLoop swapOut ps
                (setMutex True (swapOut p (setMutex False w)),
                 tr @ [EvUnlock, EvSwapOut p (setMutex False w), EvLock])"
    by (simp add: Let_def)
  show "\<not> maMutex (manager (setMutex False w))" by simp
  show "maMutex (manager (setMutex True (swapOut p (setMutex False w))))" by simp
next
  show "loopGraphicsAndSwapOut swapOut (w, tr)
       = loopGraphicsAndSwapOut (\<lambda>q v. setMutex b (swapOut q (setMutex False v))) (w, tr)"
    unfolding loopGraphicsAndSwapOut_def
    by (simp add: Let_def swapOutLoop_released_callback [of swapOut _ _ _ b])
next
  show "snd (loopGraphicsAndSwapOut swapOut (w, []))
     = EvSnapshot (registry w)
       # concat (map releasedCall (swapOutCalls (snd (loopGraphicsAndSwapOut swapOut (w, [])))))"
    by (rule loop_trace_shape)
next
  show "list_all (\<lambda>c. \<not> maMutex (manager (snd c)))
        (swapOutCalls (snd (loopGraphicsAndSwapOut swapOut (w, []))))"
    using loop_calls_checked [of swapOut w]
    by (simp add: list_all_iff callChecked_def)
next
  assume "maMutex (manager w)"
  then show "maMutex (manager (fst (loopGraphicsAndSwapOut swapOut (w, []))))"
    by (simp add: loopGraphicsAndSwapOut_def Let_def swapOutLoop_holds_mutex)
qed

theorem sweep_releases_guard_around_calls_witness:
  "\<not> usedSize lockedWorld < swapOutThreshold (mnMemoryLimit (manager lockedWorld))
   \<and> \<not> isSwappedOut (objects lockedWorld 16)
   \<and> 100000 < getGraphicSizeBytes (objects lockedWorld 16)
   \<and> \<not> mpContext (objects lockedWorld 16)
   \<and> mnAllowedIdleTime (manager lockedWorld)
       < duration_cast_seconds (clock lockedWorld - maLastUsed (objects lockedWorld 16))
   \<and> maMutex (manager lockedWorld)
   \<and> swapOutLoop reenteringSwapOut (16 # [32]) (lockedWorld, [])
       = swapOutLoop reenteringSwapOut [32]
           (setMutex True (reenteringSwapOut 16 (setMutex False lockedWorld)),
            [] @ [EvUnlock, EvSwapOut 16 (setMutex False lockedWorld), EvLock])
   \<and> isSwappedOut (objects (fst (loopGraphicsAndSwapOut reenteringSwapOut (lockedWorld, []))) 16)
   \<and> isSwappedOut (objects (fst (loopGraphicsAndSwapOut reenteringSwapOut (lockedWorld, []))) 32)
   \<and> usedSize (fst (loopGraphicsAndSwapOut reenteringSwapOut (lockedWorld, []))) = 0
   \<and> map callSummary
         (swapOutCalls (snd (loopGraphicsAndSwapOut reenteringSwapOut (lockedWorld, []))))
       = [(16, 1500001, False), (32, 700000, False)]
   \<and> maMutex (manager (fst (loopGraphicsAndSwapOut reenteringSwapOut (lockedWorld, []))))"
  using sweep_releases_guard_around_calls [where swapOut = reenteringSwapOut and w = lockedWorld
      and p = 16 and ps = "[32]" and tr = "[]"]
    locked_guards reentering_sweep
  by simp

subsection \<open>Entering a reduction\<close>

text \<open>
  Claim C7. \<^verbatim>\<open>reduceGraphicMemory\<close> returns the world and the trace as they are when
  swapping is disabled, or the counter is below the limit, or a reduction is in progress;
  there is no error value to return. A run that passes the three checks ends with the
  flag cleared.
\<close>

theorem reduceGraphicMemory_entry:
  "(\<not> mbSwapEnabled (manager w) \<or> usedSize w < mnMemoryLimit (manager w)
      \<or> mbReducingGraphicMemory (manager w)
     \<longrightarrow> reduceGraphicMemory swapOut (w, tr) = (w, tr))
   \<and> (mbSwapEnabled (manager w) \<and> \<not> usedSize w < mnMemoryLimit (manager w)
      \<and> \<not> mbReducingGraphicMemory (manager w)
     \<longrightarrow> \<not> mbReducingGraphicMemory (manager (fst (reduceGraphicMemory swapOut (w, tr)))))"
  by (auto simp: reduceGraphicMemory_def setReducing_def setUsedSize_def split: prod.splits)

theorem reduceGraphicMemory_entry_witness:
  "\<not> mbSwapEnabled (manager (sampleWorld False 60000000000))
   \<and> reduceGraphicMemory ImpGraphic_swapOut (sampleWorld False 60000000000, [])
       = (sampleWorld False 60000000000, [])
   \<and> usedSize smallWorld < mnMemoryLimit (manager smallWorld)
   \<and> reduceGraphicMemory ImpGraphic_swapOut (smallWorld, []) = (smallWorld, [])
   \<and> mbReducingGraphicMemory (manager reducingWorld)
   \<and> reduceGraphicMemory ImpGraphic_swapOut (reducingWorld, []) = (reducingWorld, [])
   \<and> mbSwapEnabled (manager (sampleWorld True 60000000000))
   \<and> \<not> usedSize (sampleWorld True 60000000000)
         < mnMemoryLimit (manager (sampleWorld True 60000000000))
   \<and> \<not> mbReducingGraphicMemory (manager (sampleWorld True 60000000000))
   \<and> \<not> mbReducingGraphicMemory
         (manager (fst (reduceGraphicMemory ImpGraphic_swapOut (sampleWorld True 60000000000, []))))"
  using reduceGraphicMemory_entry [where swapOut = ImpGraphic_swapOut
      and w = "sampleWorld False 60000000000" and tr = "[]"]
    reduceGraphicMemory_entry [where swapOut = ImpGraphic_swapOut and w = smallWorld and tr = "[]"]
    reduceGraphicMemory_entry [where swapOut = ImpGraphic_swapOut and w = reducingWorld and tr = "[]"]
    reduceGraphicMemory_entry [where swapOut = ImpGraphic_swapOut
      and w = "sampleWorld True 60000000000" and tr = "[]"]
    entry_facts
  by simp

subsection \<open>Construction\<close>

text \<open>
  Claim C8, as amended. The constructor never fails. A value whose read fails keeps its
  default, and so does every value that would have been read after it: 300,000,000 bytes,
  10 seconds, swapping enabled. A value read before the failing one is the configured one.
\<close>

theorem Manager_keeps_defaults_from_failed_read:
  "mnMemoryLimit (Manager_Manager cfg)
     = (if IsFuzzing cfg then 300000000
        else case GraphicMemoryLimit cfg of None \<Rightarrow> 300000000 | Some l \<Rightarrow> l)
   \<and> mnAllowedIdleTime (Manager_Manager cfg)
     = (if IsFuzzing cfg \<or> GraphicMemoryLimit cfg = None then 10
        else case GraphicAllowedIdleTime cfg of None \<Rightarrow> 10 | Some t \<Rightarrow> t)
   \<and> mbSwapEnabled (Manager_Manager cfg)
     = (if IsFuzzing cfg \<or> GraphicMemoryLimit cfg = None \<or> GraphicAllowedIdleTime cfg = None
        then True
        else case GraphicSwappingEnabled cfg of None \<Rightarrow> True | Some b \<Rightarrow> b)
   \<and> mnUsedSize (Manager_Manager cfg) = 0
   \<and> elements (m_pImpGraphicList (Manager_Manager cfg)) = []
   \<and> \<not> mbReducingGraphicMemory (Manager_Manager cfg)
   \<and> timerActive (maSwapOutTimer (Manager_Manager cfg)) = mbSwapEnabled (Manager_Manager cfg)"
  by (simp add: Manager_Manager_def setupConfigurationValuesIfPossible_def
        split: option.splits)

text \<open>
  A failed read does not restore what was read before it: when the idle time cannot be
  read, the limit is the configured 5,000 and not the default.
\<close>

theorem partial_configuration_counterexample:
  "GraphicAllowedIdleTime partialConfiguration = None
   \<and> mnMemoryLimit (Manager_Manager partialConfiguration) = 5000
   \<and> mnAllowedIdleTime (Manager_Manager partialConfiguration) = 10
   \<and> mbSwapEnabled (Manager_Manager partialConfiguration) = True"
  by (simp add: partialConfiguration_def Manager_Manager_def
        setupConfigurationValuesIfPossible_def)

subsection \<open>Unregistration\<close>

text \<open>
  Claim C10. \<^verbatim>\<open>unregisterGraphic\<close> subtracts the size the object reports (nothing for
  an unavailable one) whether or not the object is swapped out, removes the object from
  the registry, leaves every object as it is and recalculates nothing: the distance between
  the counter and the sum changes by the reported size unless the object was a swapped-in
  member. In particular, unregistering a swapped-out, available object of positive size
  from a state where the counter equals the sum leaves the counter that size below the sum.
\<close>

theorem unregisterGraphic_subtracts:
  "usedSize (unregisterGraphic p w)
     = usedSize w - (if isAvailable (objects w p) then getSizeBytes (objects w p) else 0)
   \<and> set (registry (unregisterGraphic p w)) = set (registry w) - {p}
   \<and> objects (unregisterGraphic p w) = objects w
   \<and> usedSize (unregisterGraphic p w) - sumOfSwappedIn (unregisterGraphic p w)
       = usedSize w - sumOfSwappedIn w
         - (if p \<in> set (registry w) \<and> \<not> isSwappedOut (objects w p) then 0
            else getGraphicSizeBytes (objects w p))
   \<and> (isSwappedOut (objects w p) \<and> isAvailable (objects w p) \<and> 0 < getSizeBytes (objects w p)
        \<and> usedSize w = sumOfSwappedIn w
      \<longrightarrow> usedSize (unregisterGraphic p w)
            = sumOfSwappedIn (unregisterGraphic p w) - getSizeBytes (objects w p))"
proof -
  have reg: "set (registry (unregisterGraphic p w)) = set (registry w) - {p}"
    by (simp add: unregisterGraphic_fields set_del_sorted elements_ascending)
  have rest: "usedSize (unregisterGraphic p w)
       = usedSize w - (if isAvailable (objects w p) then getSizeBytes (objects w p) else 0)"
    "sumOfSwappedIn (unregisterGraphic p w)
       = sumOfSwappedIn w
         - (if p \<in> set (registry w) \<and> \<not> isSwappedOut (objects w p)
            then getGraphicSizeBytes (objects w p) else 0)"
    by (simp_all add: unregisterGraphic_fields(1) sumOfSwappedIn_unregister contribution_def
          getGraphicSizeBytes_def)
  show ?thesis
    unfolding rest reg by (simp add: unregisterGraphic_fields(3) getGraphicSizeBytes_def)
qed

theorem unregisterGraphic_subtracts_witness:
  "isSwappedOut (objects registeredWorld 16) \<and> isAvailable (objects registeredWorld 16)
   \<and> 0 < getSizeBytes (objects registeredWorld 16)
   \<and> usedSize registeredWorld = sumOfSwappedIn registeredWorld
   \<and> registry registeredWorld = [16]
   \<and> registry (unregisterGraphic 16 registeredWorld) = []
   \<and> usedSize (unregisterGraphic 16 registeredWorld) = - 500
   \<and> sumOfSwappedIn (unregisterGraphic 16 registeredWorld) = 0"
  using unregisterGraphic_subtracts [of 16 registeredWorld]
  by (simp add: registeredWorld_facts)

end
